theory Spec2Isabelle
  imports Main
begin

section \<open>Python values and their JSON text\<close>

text \<open>
  Tool arguments and tool results are Python values of type \<^verbatim>\<open>Any\<close>. The
  collaborators are pass-throughs to REST calls, so the values are what a parsed JSON
  document holds (\<^verbatim>\<open>None\<close>, booleans, integers, floats, strings, lists, dictionaries
  keyed by strings), plus objects of any other class, which \<^verbatim>\<open>json.dumps\<close> cannot
  encode by itself. A float is carried as the text \<^verbatim>\<open>float.__repr__\<close> gives it and
  an object of another class as the text \<^verbatim>\<open>str\<close> gives it: these are the only
  things the agent ever does with them. A character stands for the code point of the
  same number (0 to 255).
\<close>

datatype pyval =
    PNone
  | PBool bool
  | PInt int
  | PFloat string
  | PStr string
  | PList "pyval list"
  | PDict "(string \<times> pyval) list"
  | PObject string

type_synonym kwargs = "(string \<times> pyval) list"

text \<open>\<^verbatim>\<open>str(n)\<close> for an integer: decimal digits, with a minus sign.\<close>

definition digit_char :: "nat \<Rightarrow> char" where
  "digit_char d = ''0123456789abcdef'' ! (d mod 16)"

function digits :: "nat \<Rightarrow> string" where
  "digits n = (if n < 10 then [digit_char n] else digits (n div 10) @ [digit_char (n mod 10)])"
  by pat_completeness auto
termination
  by (relation "measure (\<lambda>n. n)") auto

declare digits.simps [simp del]

definition str_int :: "int \<Rightarrow> string" where
  "str_int i = (if i < 0 then CHR ''-'' # digits (nat (- i)) else digits (nat i))"

text \<open>
  The string encoder of \<^verbatim>\<open>json.dumps\<close> with its default \<^verbatim>\<open>ensure_ascii=True\<close>:
  the quote and the backslash are escaped, the control characters that have a short
  escape take it, and every other character outside the range from space to tilde
  becomes \<^verbatim>\<open>\uXXXX\<close> in lower-case hexadecimal.
\<close>

definition escape_char :: "char \<Rightarrow> string" where
  "escape_char c =
     (if c = CHR 0x22 then [CHR 0x5C, CHR 0x22]
      else if c = CHR 0x5C then [CHR 0x5C, CHR 0x5C]
      else if c = CHR 0x0A then [CHR 0x5C, CHR ''n'']
      else if c = CHR 0x0D then [CHR 0x5C, CHR ''r'']
      else if c = CHR 0x09 then [CHR 0x5C, CHR ''t'']
      else if c = CHR 0x08 then [CHR 0x5C, CHR ''b'']
      else if c = CHR 0x0C then [CHR 0x5C, CHR ''f'']
      else if 32 \<le> (of_char c :: nat) \<and> (of_char c :: nat) \<le> 126 then [c]
      else [CHR 0x5C, CHR ''u'', CHR ''0'', CHR ''0'',
            digit_char ((of_char c :: nat) div 16), digit_char ((of_char c :: nat) mod 16)])"

definition encode_str :: "string \<Rightarrow> string" where
  "encode_str s = CHR 0x22 # concat (map escape_char s) @ [CHR 0x22]"

text \<open>\<^verbatim>\<open>sep.join(parts)\<close>.\<close>

fun join :: "string \<Rightarrow> string list \<Rightarrow> string" where
  "join sep [] = []"
| "join sep [p] = p"
| "join sep (p # q # ps) = p @ sep @ join sep (q # ps)"

text \<open>
  \<^verbatim>\<open>json.dumps(v, default=str)\<close>: the default separators are a comma and a colon,
  each followed by a space. A value the encoder does not know is handed to
  \<^verbatim>\<open>default\<close>, here \<^verbatim>\<open>str\<close>, and the string that comes back is encoded in its
  place.
\<close>

fun json_dumps :: "pyval \<Rightarrow> string" where
  "json_dumps PNone = ''null''"
| "json_dumps (PBool b) = (if b then ''true'' else ''false'')"
| "json_dumps (PInt i) = str_int i"
| "json_dumps (PFloat r) = r"
| "json_dumps (PStr s) = encode_str s"
| "json_dumps (PList vs) = ''['' @ join '', '' (map json_dumps vs) @ '']''"
| "json_dumps (PDict kvs) =
     ''{'' @ join '', '' (map (\<lambda>(k, v). encode_str k @ '': '' @ json_dumps v) kvs) @ ''}''"
| "json_dumps (PObject s) = encode_str s"

section \<open>Messages, the agent and its collaborators\<close>

text \<open>
  A tool invocation request of the model: \<^verbatim>\<open>tool_call['function']['name']\<close> and
  \<^verbatim>\<open>tool_call['function']['arguments']\<close>.
\<close>

record function_call =
  name :: string
  arguments :: kwargs

record tool_call =
  "function" :: function_call

text \<open>
  A message of the conversation. The dictionaries the agent builds have the keys
  \<^verbatim>\<open>role\<close> and \<^verbatim>\<open>content\<close>, a tool message has \<^verbatim>\<open>name\<close> as well; the
  model's message may carry \<^verbatim>\<open>tool_calls\<close>. A key that is absent is \<open>None\<close>,
  which is what \<^verbatim>\<open>message.get('tool_calls')\<close> returns for it.
\<close>

record message =
  role :: string
  content :: string
  tool_calls :: "tool_call list option"
  name :: "string option"

text \<open>The response of the chat call: \<^verbatim>\<open>response['message']\<close>.\<close>

record chat_response =
  message :: message

text \<open>
  An exception, an instance of \<^verbatim>\<open>Exception\<close>, with the text \<^verbatim>\<open>str(e)\<close> gives.
\<close>

datatype exc = Exception string

fun str_exc :: "exc \<Rightarrow> string" where
  "str_exc (Exception m) = m"

text \<open>
  The collaborators are outside the repository: the chat call of the Ollama client and
  the six functions imported from \<^verbatim>\<open>main\<close>. Each takes the state of the outside
  world (of any type \<open>'w\<close>) and returns the new one, with either the exception it
  raised (\<open>Inl\<close>) or its result. Each function of \<^verbatim>\<open>main\<close> takes the context and
  the keyword arguments of the call; a call with the context alone passes none.
  The import of the six functions at the head of \<^verbatim>\<open>_execute_tool\<close> is taken to
  succeed: the functions are there. An exception is one that \<^verbatim>\<open>except Exception\<close>
  catches; signals such as \<^verbatim>\<open>KeyboardInterrupt\<close> are not modelled.
\<close>

record ('c, 'w) env =
  client_chat ::
    "string \<Rightarrow> message list \<Rightarrow> pyval list \<Rightarrow> 'w \<Rightarrow> (exc + chat_response) \<times> 'w"
  superset_database_list :: "'c \<Rightarrow> kwargs \<Rightarrow> 'w \<Rightarrow> (exc + pyval) \<times> 'w"
  superset_database_get_tables :: "'c \<Rightarrow> kwargs \<Rightarrow> 'w \<Rightarrow> (exc + pyval) \<times> 'w"
  superset_database_schemas :: "'c \<Rightarrow> kwargs \<Rightarrow> 'w \<Rightarrow> (exc + pyval) \<times> 'w"
  superset_sqllab_execute_query :: "'c \<Rightarrow> kwargs \<Rightarrow> 'w \<Rightarrow> (exc + pyval) \<times> 'w"
  superset_chart_create :: "'c \<Rightarrow> kwargs \<Rightarrow> 'w \<Rightarrow> (exc + pyval) \<times> 'w"
  superset_dataset_list :: "'c \<Rightarrow> kwargs \<Rightarrow> 'w \<Rightarrow> (exc + pyval) \<times> 'w"

text \<open>
  What the agent does to the outside is kept in a log beside the world: one entry for
  each chat call, with the model name, the messages and the tool schemas passed and
  what came back, and one for each tool invocation handed to \<^verbatim>\<open>_execute_tool\<close>,
  with the name, the arguments and what came back.
\<close>

datatype event =
    ModelCall string "message list" "pyval list" "exc + chat_response"
  | ToolDispatch string kwargs "exc + pyval"

record 'w io =
  world :: 'w
  calls :: "event list"

record 'c SupersetAgent =
  ctx :: 'c
  model :: string
  history :: "message list"

definition SYSTEM_PROMPT :: string where
  "SYSTEM_PROMPT = ''You are a Superset Data Analyst Agent. Your goal is to help users visualize data.
You have access to a Superset instance with Trino/Database connections.

Follow this process:
1. Understand the User's Request.
2. INTERSPECT Data: Use `superset_database_list` to find databases.
   - For Trino/Presto, ALWAYS check schemas using `superset_database_schemas(database_id)` first.
   - Then use `superset_database_get_tables(database_id, schema_name=...)` with the relevant schema.
3. QUERY Data (Optional but recommended): Use `superset_sqllab_execute_query` to preview data or verify assumptions.
4. VISUALIZE: Use `superset_chart_create` to create a chart.
   - Choose an appropriate `viz_type` (e.g., 'table', 'big_number', 'echarts_timeseries_line', 'echarts_timeseries_bar', 'pie').
   - `datasource_type` should be 'table' (if using a dataset) or 'query' (if creating from SQL).
   - Construct the `params` JSON carefully based on the chart type.
5. FINAL ANSWER: Return the URL of the created chart or dashboard.

Tools available:
- `superset_database_list`: List available databases.
- `superset_database_get_tables(database_id)`: List tables in a database.
- `superset_sqllab_execute_query(database_id, sql)`: Execute SQL.
- `superset_chart_create(slice_name, datasource_id, datasource_type, viz_type, params)`: Create a chart.
- `superset_dataset_list()`: List available datasets.

Response Format:
You must STRICTLY use the provided tools.
If you need more information, ask the user.
''"

text \<open>\<^verbatim>\<open>SupersetAgent.__init__\<close>; the model name defaults to \<^verbatim>\<open>llama3\<close>.\<close>

definition init :: "'c \<Rightarrow> string \<Rightarrow> 'c SupersetAgent" where
  "init c m =
     \<lparr>ctx = c, model = m,
      history = [\<lparr>role = ''system'', content = SYSTEM_PROMPT, tool_calls = None, name = None\<rparr>]\<rparr>"

section \<open>The tool schemas\<close>

text \<open>
  The list \<^verbatim>\<open>tools\<close> that \<^verbatim>\<open>chat\<close> builds: six dictionaries, written as the
  source writes them.
\<close>

definition integer_param :: "string \<Rightarrow> pyval" where
  "integer_param d = PDict [(''type'', PStr ''integer''), (''description'', PStr d)]"

definition string_param :: "string \<Rightarrow> pyval" where
  "string_param d = PDict [(''type'', PStr ''string''), (''description'', PStr d)]"

definition tool_schema :: "string \<Rightarrow> string \<Rightarrow> pyval \<Rightarrow> pyval" where
  "tool_schema n d ps =
     PDict [(''type'', PStr ''function''),
            (''function'', PDict [(''name'', PStr n), (''description'', PStr d), (''parameters'', ps)])]"

definition tools :: "pyval list" where
  "tools =
     [tool_schema ''superset_database_list'' ''List all databases available in Superset''
        (PDict [(''type'', PStr ''object''), (''properties'', PDict [])]),
      tool_schema ''superset_database_get_tables'' ''List tables in a specific database''
        (PDict [(''type'', PStr ''object''),
                (''properties'', PDict
                   [(''database_id'', integer_param ''The ID of the database''),
                    (''schema_name'',
                       string_param ''The schema name (optional but recommended for Trino)'')]),
                (''required'', PList [PStr ''database_id''])]),
      tool_schema ''superset_database_schemas'' ''List schemas in a specific database''
        (PDict [(''type'', PStr ''object''),
                (''properties'', PDict
                   [(''database_id'', integer_param ''The ID of the database'')]),
                (''required'', PList [PStr ''database_id''])]),
      tool_schema ''superset_sqllab_execute_query'' ''Execute a SQL query against a database''
        (PDict [(''type'', PStr ''object''),
                (''properties'', PDict
                   [(''database_id'', integer_param ''The ID of the database''),
                    (''sql'', string_param ''The SQL query to execute'')]),
                (''required'', PList [PStr ''database_id'', PStr ''sql''])]),
      tool_schema ''superset_chart_create'' ''Create a new chart in Superset''
        (PDict [(''type'', PStr ''object''),
                (''properties'', PDict
                   [(''slice_name'', string_param ''Name of the chart''),
                    (''datasource_id'',
                       integer_param ''ID of the datasource (table or saved query)''),
                    (''datasource_type'', PDict
                       [(''type'', PStr ''string''),
                        (''enum'', PList [PStr ''table'', PStr ''query'']),
                        (''description'', PStr ''Type of datasource'')]),
                    (''viz_type'',
                       string_param ''Type of visualization (e.g., echarts_timeseries_bar)''),
                    (''params'', PDict
                       [(''type'', PStr ''object''),
                        (''description'', PStr ''Chart configuration parameters'')])]),
                (''required'', PList [PStr ''slice_name'', PStr ''datasource_id'',
                   PStr ''datasource_type'', PStr ''viz_type'', PStr ''params''])]),
      tool_schema ''superset_dataset_list'' ''List available datasets''
        (PDict [(''type'', PStr ''object''), (''properties'', PDict [])])]"

section \<open>Tool dispatch\<close>

text \<open>
  The body of the \<^verbatim>\<open>try\<close> in \<^verbatim>\<open>_execute_tool\<close>: the chain of comparisons in
  the order of the source. \<^verbatim>\<open>superset_database_list\<close> and
  \<^verbatim>\<open>superset_dataset_list\<close> are called with the context alone, the other four with
  \<^verbatim>\<open>**args\<close>. An exception of the called function leaves the body as \<open>Inl\<close>.
\<close>

definition try_body ::
  "('c, 'w) env \<Rightarrow> 'c SupersetAgent \<Rightarrow> string \<Rightarrow> kwargs \<Rightarrow> 'w \<Rightarrow> (exc + pyval) \<times> 'w" where
  "try_body e self nm args w =
     (if nm = ''superset_database_list'' then superset_database_list e (ctx self) [] w
      else if nm = ''superset_database_schemas'' then superset_database_schemas e (ctx self) args w
      else if nm = ''superset_database_get_tables''
        then superset_database_get_tables e (ctx self) args w
      else if nm = ''superset_sqllab_execute_query''
        then superset_sqllab_execute_query e (ctx self) args w
      else if nm = ''superset_chart_create'' then superset_chart_create e (ctx self) args w
      else if nm = ''superset_dataset_list'' then superset_dataset_list e (ctx self) [] w
      else (Inr (PDict [(''error'', PStr (''Unknown tool: '' @ nm))]), w))"

text \<open>
  \<^verbatim>\<open>_execute_tool\<close>: the \<^verbatim>\<open>except Exception\<close> clause turns an exception of the
  body into the dictionary \<^verbatim>\<open>{"error": str(e)}\<close>. The result type still has the
  \<open>Inl\<close> of an exception that leaves the function, since \<^verbatim>\<open>chat\<close> awaits the call
  outside any \<^verbatim>\<open>try\<close>.
\<close>

definition execute_tool ::
  "('c, 'w) env \<Rightarrow> 'c SupersetAgent \<Rightarrow> string \<Rightarrow> kwargs \<Rightarrow> 'w \<Rightarrow> (exc + pyval) \<times> 'w" where
  "execute_tool e self nm args w =
     (case try_body e self nm args w of
        (Inl ex, w') \<Rightarrow> (Inr (PDict [(''error'', PStr (str_exc ex))]), w')
      | (Inr v, w') \<Rightarrow> (Inr v, w'))"

section \<open>The agent loop\<close>

text \<open>The message appended for a tool result.\<close>

definition tool_message :: "string \<Rightarrow> pyval \<Rightarrow> message" where
  "tool_message function_name tool_result =
     \<lparr>role = ''tool'', content = json_dumps tool_result, tool_calls = None,
      name = Some function_name\<rparr>"

text \<open>
  The inner loop of \<^verbatim>\<open>chat\<close> over the tool calls of one message. An exception of
  \<^verbatim>\<open>_execute_tool\<close> would leave \<^verbatim>\<open>chat\<close> here.
\<close>

fun process_tool_calls ::
  "('c, 'w) env \<Rightarrow> 'c SupersetAgent \<Rightarrow> tool_call list \<Rightarrow> 'w io
     \<Rightarrow> (exc + unit) \<times> 'c SupersetAgent \<times> 'w io" where
  "process_tool_calls e self [] s = (Inr (), self, s)"
| "process_tool_calls e self (tc # rest) s =
     (let function_name = function_call.name (function tc);
          arguments = function_call.arguments (function tc);
          (tool_result, w') = execute_tool e self function_name arguments (world s);
          s' = \<lparr>world = w', calls = calls s @ [ToolDispatch function_name arguments tool_result]\<rparr>
      in case tool_result of
           Inl ex \<Rightarrow> (Inl ex, self, s')
         | Inr v \<Rightarrow>
             process_tool_calls e
               (self\<lparr>history := history self @ [tool_message function_name v]\<rparr>) rest s')"

text \<open>\<^verbatim>\<open>not tool_calls\<close>: true of \<^verbatim>\<open>None\<close> and of the empty list.\<close>

definition no_tool_calls :: "tool_call list option \<Rightarrow> bool" where
  "no_tool_calls t = (case t of None \<Rightarrow> True | Some tcs \<Rightarrow> tcs = [])"

definition limit_reached :: string where
  "limit_reached = ''Agent loop limit reached without final answer.''"

text \<open>
  The outer loop \<^verbatim>\<open>for _ in range(5)\<close>, by the number of turns that remain. When
  none remains the function returns the message after the loop.
\<close>

fun chat_loop ::
  "('c, 'w) env \<Rightarrow> nat \<Rightarrow> 'c SupersetAgent \<Rightarrow> 'w io
     \<Rightarrow> (exc + string) \<times> 'c SupersetAgent \<times> 'w io" where
  "chat_loop e 0 self s = (Inr limit_reached, self, s)"
| "chat_loop e (Suc n) self s =
     (let (r, w') = client_chat e (model self) (history self) tools (world s);
          s' = \<lparr>world = w', calls = calls s @ [ModelCall (model self) (history self) tools r]\<rparr>
      in case r of
           Inl ex \<Rightarrow> (Inr (''Error communicating with Ollama: '' @ str_exc ex), self, s')
         | Inr response \<Rightarrow>
             (let msg = chat_response.message response;
                  self' = self\<lparr>history := history self @ [msg]\<rparr>
              in if no_tool_calls (tool_calls msg) then (Inr (content msg), self', s')
                 else (case process_tool_calls e self' (the (tool_calls msg)) s' of
                         (Inl ex, self'', s'') \<Rightarrow> (Inl ex, self'', s'')
                       | (Inr u, self'', s'') \<Rightarrow> chat_loop e n self'' s'')))"

definition user_message :: "string \<Rightarrow> message" where
  "user_message query = \<lparr>role = ''user'', content = query, tool_calls = None, name = None\<rparr>"

definition chat ::
  "('c, 'w) env \<Rightarrow> 'c SupersetAgent \<Rightarrow> string \<Rightarrow> 'w io
     \<Rightarrow> (exc + string) \<times> 'c SupersetAgent \<times> 'w io" where
  "chat e self query s =
     chat_loop e 5 (self\<lparr>history := history self @ [user_message query]\<rparr>) s"

section \<open>Reading the log and the schemas\<close>

text \<open>The entries a run added to the log that it started from.\<close>

definition new_events :: "'w io \<Rightarrow> 'w io \<Rightarrow> event list" where
  "new_events s s' = drop (length (calls s)) (calls s')"

fun is_model_call :: "event \<Rightarrow> bool" where
  "is_model_call (ModelCall m ms ts r) = True"
| "is_model_call (ToolDispatch nm args r) = False"

text \<open>The messages and the schema lists that the chat calls of a log were given.\<close>

fun messages_passed :: "event list \<Rightarrow> message list list" where
  "messages_passed [] = []"
| "messages_passed (ModelCall m ms ts r # evs) = ms # messages_passed evs"
| "messages_passed (ToolDispatch nm args r # evs) = messages_passed evs"

fun schemas_passed :: "event list \<Rightarrow> pyval list list" where
  "schemas_passed [] = []"
| "schemas_passed (ModelCall m ms ts r # evs) = ts # schemas_passed evs"
| "schemas_passed (ToolDispatch nm args r # evs) = schemas_passed evs"

text \<open>
  The conversation a log stands for: the message of each chat call that returned one,
  and for each tool invocation that returned a result the name and the result.
\<close>

datatype turn = Assistant message | Tool string pyval

fun turns :: "event list \<Rightarrow> turn list" where
  "turns [] = []"
| "turns (ModelCall m ms ts (Inr r) # evs) = Assistant (chat_response.message r) # turns evs"
| "turns (ModelCall m ms ts (Inl ex) # evs) = turns evs"
| "turns (ToolDispatch nm args (Inr v) # evs) = Tool nm v # turns evs"
| "turns (ToolDispatch nm args (Inl ex) # evs) = turns evs"

text \<open>The message each turn is folded into.\<close>

fun as_message :: "turn \<Rightarrow> message" where
  "as_message (Assistant m) = m"
| "as_message (Tool nm v) =
     \<lparr>role = ''tool'', content = json_dumps v, tool_calls = None, name = Some nm\<rparr>"

text \<open>
  A stretch of the log that is the dispatch of the given tool calls and nothing else:
  one entry for each call, in the order of the list, each with a result.
\<close>

fun dispatched :: "tool_call list \<Rightarrow> event list \<Rightarrow> bool" where
  "dispatched [] [] = True"
| "dispatched (tc # tcs) (ToolDispatch nm args (Inr v) # evs) =
     (nm = function_call.name (function tc) \<and> args = function_call.arguments (function tc)
      \<and> dispatched tcs evs)"
| "dispatched tcs evs = False"

text \<open>
  The shape of a log, given the tool calls of the last message that are still to be
  dispatched: each of them is dispatched next, in the order of the list, under its own
  name and with its own arguments; when none is left the next entry is a chat call; a
  chat call that raised, or whose message has no tool calls, is the last entry.
\<close>

fun in_call_order :: "tool_call list \<Rightarrow> event list \<Rightarrow> bool" where
  "in_call_order [] [] = True"
| "in_call_order [] (ModelCall m ms ts (Inl ex) # evs) = (evs = [])"
| "in_call_order [] (ModelCall m ms ts (Inr r) # evs) =
     (if no_tool_calls (tool_calls (chat_response.message r)) then evs = []
      else in_call_order (the (tool_calls (chat_response.message r))) evs)"
| "in_call_order [] (ToolDispatch nm args r # evs) = False"
| "in_call_order (tc # tcs) [] = False"
| "in_call_order (tc # tcs) (ModelCall m ms ts r # evs) = False"
| "in_call_order (tc # tcs) (ToolDispatch nm args r # evs) =
     (nm = function_call.name (function tc) \<and> args = function_call.arguments (function tc)
      \<and> in_call_order tcs evs)"

text \<open>
  Whether every chat call of a log was given the whole conversation so far: the
  messages \<open>h\<close> the log starts from, followed by what each earlier entry of the log
  was folded into.
\<close>

fun passes_history :: "message list \<Rightarrow> event list \<Rightarrow> bool" where
  "passes_history h [] = True"
| "passes_history h (ModelCall m ms ts r # evs) =
     (ms = h \<and> passes_history (h @ map as_message (turns [ModelCall m ms ts r])) evs)"
| "passes_history h (ToolDispatch nm args r # evs) =
     passes_history (h @ map as_message (turns [ToolDispatch nm args r])) evs"

text \<open>
  The exception of a chat call that raised, and whether a log stops at the first such
  call with the given answer.
\<close>

fun model_failure :: "event \<Rightarrow> exc option" where
  "model_failure (ModelCall m ms ts (Inl ex)) = Some ex"
| "model_failure (ModelCall m ms ts (Inr r)) = None"
| "model_failure (ToolDispatch nm args r) = None"

fun stops_at_failure :: "exc + string \<Rightarrow> event list \<Rightarrow> bool" where
  "stops_at_failure answer [] = True"
| "stops_at_failure answer (ev # evs) =
     (case model_failure ev of
        Some ex \<Rightarrow> evs = [] \<and> answer = Inr (''Error communicating with Ollama: '' @ str_exc ex)
      | None \<Rightarrow> stops_at_failure answer evs)"

text \<open>
  The operation name of a schema, \<^verbatim>\<open>t['function']['name']\<close>, and the names of a
  schema list.
\<close>

definition schema_name :: "pyval \<Rightarrow> string option" where
  "schema_name t =
     (case t of
        PDict kvs \<Rightarrow>
          (case map_of kvs ''function'' of
             Some (PDict f) \<Rightarrow> (case map_of f ''name'' of Some (PStr n) \<Rightarrow> Some n | _ \<Rightarrow> None)
           | _ \<Rightarrow> None)
      | _ \<Rightarrow> None)"

definition schema_names :: "pyval list \<Rightarrow> string list" where
  "schema_names ts = List.map_filter schema_name ts"

text \<open>
  A name is dispatchable when \<^verbatim>\<open>_execute_tool\<close> does not take its last branch for
  it: with some collaborators the body returns something else than the payload of an
  unknown tool.
\<close>

definition dispatchable :: "string \<Rightarrow> bool" where
  "dispatchable nm =
     (\<exists>(e :: (unit, unit) env) self args.
        try_body e self nm args () \<noteq> (Inr (PDict [(''error'', PStr (''Unknown tool: '' @ nm))]), ()))"

text \<open>A model that asks for at least one tool on every call, whatever it is given.\<close>

definition always_requests_tools :: "('c, 'w) env \<Rightarrow> bool" where
  "always_requests_tools e =
     (\<forall>m ms ts w.
        case fst (client_chat e m ms ts w) of
          Inl ex \<Rightarrow> False
        | Inr r \<Rightarrow> \<not> no_tool_calls (tool_calls (chat_response.message r)))"

text \<open>Replacing every object of another class by the string \<^verbatim>\<open>str\<close> gives for it.\<close>

fun coerce :: "pyval \<Rightarrow> pyval" where
  "coerce (PList vs) = PList (map coerce vs)"
| "coerce (PDict kvs) = PDict (map (\<lambda>(k, v). (k, coerce v)) kvs)"
| "coerce (PObject x) = PStr x"
| "coerce v = v"

fun primitive :: "pyval \<Rightarrow> bool" where
  "primitive (PList vs) = list_all primitive vs"
| "primitive (PDict kvs) = list_all (\<lambda>(k, v). primitive v) kvs"
| "primitive (PObject x) = False"
| "primitive v = True"

text \<open>
  Text that can be shown as it is: every character is between the space and the tilde.
  The text kept for a float is the one Python prints, which is such text; the predicate
  below says so of the floats inside a value.
\<close>

definition printable :: "string \<Rightarrow> bool" where
  "printable t = list_all (\<lambda>c. 32 \<le> (of_char c :: nat) \<and> (of_char c :: nat) \<le> 126) t"

fun float_texts_printable :: "pyval \<Rightarrow> bool" where
  "float_texts_printable (PFloat r) = printable r"
| "float_texts_printable (PList vs) = list_all float_texts_printable vs"
| "float_texts_printable (PDict kvs) = list_all (\<lambda>(k, v). float_texts_printable v) kvs"
| "float_texts_printable v = True"

section \<open>Dispatch as the specification words it\<close>

text \<open>
  The registry of the six operations, and a dispatch that hands the argument mapping of
  the request to the operation of every recognized name. This is the reading of the
  specification, to be compared with \<^const>\<open>execute_tool\<close>.
\<close>

definition registry ::
  "('c, 'w) env \<Rightarrow> string \<Rightarrow> ('c \<Rightarrow> kwargs \<Rightarrow> 'w \<Rightarrow> (exc + pyval) \<times> 'w) option" where
  "registry e nm =
     (if nm = ''superset_database_list'' then Some (superset_database_list e)
      else if nm = ''superset_database_schemas'' then Some (superset_database_schemas e)
      else if nm = ''superset_database_get_tables'' then Some (superset_database_get_tables e)
      else if nm = ''superset_sqllab_execute_query'' then Some (superset_sqllab_execute_query e)
      else if nm = ''superset_chart_create'' then Some (superset_chart_create e)
      else if nm = ''superset_dataset_list'' then Some (superset_dataset_list e)
      else None)"

definition spec_execute_tool ::
  "('c, 'w) env \<Rightarrow> 'c SupersetAgent \<Rightarrow> string \<Rightarrow> kwargs \<Rightarrow> 'w \<Rightarrow> (exc + pyval) \<times> 'w" where
  "spec_execute_tool e self nm args w =
     (case registry e nm of
        None \<Rightarrow> (Inr (PDict [(''error'', PStr (''Unknown tool: '' @ nm))]), w)
      | Some f \<Rightarrow>
          (case f (ctx self) args w of
             (Inl ex, w') \<Rightarrow> (Inr (PDict [(''error'', PStr (str_exc ex))]), w')
           | (Inr v, w') \<Rightarrow> (Inr v, w')))"

section \<open>The conversation as the specification words it\<close>


text \<open>
  One message with the role \<^verbatim>\<open>tool\<close> for each request and its result, in the order
  of the requests, each named after the operation of its request.
\<close>

definition spec_tool_messages :: "tool_call list \<Rightarrow> pyval list \<Rightarrow> message list" where
  "spec_tool_messages tcs vs =
     map (\<lambda>(tc, v). \<lparr>role = ''tool'', content = json_dumps v, tool_calls = None,
                      name = Some (function_call.name (function tc))\<rparr>) (zip tcs vs)"




section \<open>Collaborators for the examples\<close>

text \<open>
  A world that counts the chat calls; the model answers the call number \<open>w\<close> with
  \<open>script w\<close>. The functions without parameters refuse keyword arguments, as a
  Python function does; listing the schemas fails; listing the tables returns the
  keyword arguments it was given.
\<close>

definition databases :: pyval where
  "databases = PList [PDict [(''id'', PInt 1), (''name'', PStr ''examples'')]]"

definition no_parameters :: "pyval \<Rightarrow> unit \<Rightarrow> kwargs \<Rightarrow> nat \<Rightarrow> (exc + pyval) \<times> nat" where
  "no_parameters v c kw w =
     (if kw = [] then (Inr v, w) else (Inl (Exception ''got an unexpected keyword argument''), w))"

definition demo_env :: "(nat \<Rightarrow> exc + chat_response) \<Rightarrow> (unit, nat) env" where
  "demo_env script =
     \<lparr>client_chat = (\<lambda>m ms ts w. (script w, Suc w)),
      superset_database_list = no_parameters databases,
      superset_database_get_tables = (\<lambda>c kw w. (Inr (PDict kw), w)),
      superset_database_schemas = (\<lambda>c kw w. (Inl (Exception ''Connection refused''), w)),
      superset_sqllab_execute_query = (\<lambda>c kw w. (Inr (PObject ''<Result>''), w)),
      superset_chart_create = (\<lambda>c kw w. (Inr PNone, w)),
      superset_dataset_list = no_parameters (PList [])\<rparr>"

text \<open>Collaborators without a world, where every function of \<^verbatim>\<open>main\<close> returns \<^verbatim>\<open>None\<close>.\<close>

definition idle :: "(unit, unit) env" where
  "idle =
     \<lparr>client_chat = (\<lambda>m ms ts w. (Inl (Exception []), ())),
      superset_database_list = (\<lambda>c kw w. (Inr PNone, ())),
      superset_database_get_tables = (\<lambda>c kw w. (Inr PNone, ())),
      superset_database_schemas = (\<lambda>c kw w. (Inr PNone, ())),
      superset_sqllab_execute_query = (\<lambda>c kw w. (Inr PNone, ())),
      superset_chart_create = (\<lambda>c kw w. (Inr PNone, ())),
      superset_dataset_list = (\<lambda>c kw w. (Inr PNone, ()))\<rparr>"

definition request :: "string \<Rightarrow> kwargs \<Rightarrow> chat_response" where
  "request nm args =
     \<lparr>message = \<lparr>role = ''assistant'', content = [],
        tool_calls = Some [\<lparr>function = \<lparr>function_call.name = nm, arguments = args\<rparr>\<rparr>],
        name = None\<rparr>\<rparr>"

definition answer :: "string \<Rightarrow> chat_response" where
  "answer txt =
     \<lparr>message = \<lparr>role = ''assistant'', content = txt, tool_calls = None, name = None\<rparr>\<rparr>"

text \<open>
  Five models: one that asks for the databases on every call, one that answers at
  once, one that asks for the databases and then answers, one that asks for the schemas
  and then answers, and one that cannot be reached.
\<close>

definition always_request :: "nat \<Rightarrow> exc + chat_response" where
  "always_request w = Inr (request ''superset_database_list'' [])"

definition plain_answer :: "nat \<Rightarrow> exc + chat_response" where
  "plain_answer w = Inr (answer ''Which database do you mean?'')"

definition list_then_answer :: "nat \<Rightarrow> exc + chat_response" where
  "list_then_answer w =
     (if w = 0 then Inr (request ''superset_database_list'' [])
      else Inr (answer ''Found 1 database: examples''))"

definition schemas_then_answer :: "nat \<Rightarrow> exc + chat_response" where
  "schemas_then_answer w =
     (if w = 0 then Inr (request ''superset_database_schemas'' [(''database_id'', PInt 1)])
      else Inr (answer ''The schemas could not be listed.''))"

definition model_down :: "nat \<Rightarrow> exc + chat_response" where
  "model_down w = Inl (Exception ''Failed to connect to Ollama'')"

definition agent0 :: "unit SupersetAgent" where
  "agent0 = init () ''llama3''"

definition io0 :: "nat io" where
  "io0 = \<lparr>world = 0, calls = []\<rparr>"

section \<open>Facts about dispatch, the loops and the log\<close>

lemma execute_tool_returns: "\<exists>v w'. execute_tool e self nm args w = (Inr v, w')"
  by (auto simp: execute_tool_def split: prod.splits sum.splits)

lemma process_tool_calls_run:
  "\<exists>evs w'. process_tool_calls e self tcs s =
      (Inr (), self\<lparr>history := history self @ map as_message (turns evs)\<rparr>,
       \<lparr>world = w', calls = calls s @ evs\<rparr>) \<and> dispatched tcs evs"
proof (induction tcs arbitrary: self s)
  case Nil
  have "process_tool_calls e self [] s =
      (Inr (), self\<lparr>history := history self @ map as_message (turns [])\<rparr>,
       \<lparr>world = world s, calls = calls s @ []\<rparr>) \<and> dispatched [] []"
    by simp
  then show ?case by blast
next
  case (Cons tc tcs)
  let ?nm = "function_call.name (function tc)"
  let ?args = "function_call.arguments (function tc)"
  obtain v w1 where ex: "execute_tool e self ?nm ?args (world s) = (Inr v, w1)"
    using execute_tool_returns [of e self ?nm ?args "world s"] by auto
  let ?self1 = "self\<lparr>history := history self @ [tool_message ?nm v]\<rparr>"
  let ?s1 = "\<lparr>world = w1, calls = calls s @ [ToolDispatch ?nm ?args (Inr v)]\<rparr>"
  obtain evs w' where ih: "process_tool_calls e ?self1 tcs ?s1 =
      (Inr (), ?self1\<lparr>history := history ?self1 @ map as_message (turns evs)\<rparr>,
       \<lparr>world = w', calls = calls ?s1 @ evs\<rparr>)" and d: "dispatched tcs evs"
    using Cons.IH [of ?self1 ?s1] by auto
  have "process_tool_calls e self (tc # tcs) s =
      (Inr (), self\<lparr>history := history self @ map as_message (turns (ToolDispatch ?nm ?args (Inr v) # evs))\<rparr>,
       \<lparr>world = w', calls = calls s @ ToolDispatch ?nm ?args (Inr v) # evs\<rparr>)"
    using ex ih by (simp add: tool_message_def Let_def)
  moreover have "dispatched (tc # tcs) (ToolDispatch ?nm ?args (Inr v) # evs)"
    using d by simp
  ultimately show ?case by blast
qed


lemma dispatched_no_model_call: "dispatched tcs evs \<Longrightarrow> filter is_model_call evs = []"
  by (induction tcs evs rule: dispatched.induct) auto

lemma dispatched_messages_passed:
  "dispatched tcs evs \<Longrightarrow> messages_passed (evs @ rest) = messages_passed rest"
  by (induction tcs evs rule: dispatched.induct) auto

lemma dispatched_schemas_passed:
  "dispatched tcs evs \<Longrightarrow> schemas_passed (evs @ rest) = schemas_passed rest"
  by (induction tcs evs rule: dispatched.induct) auto

lemma dispatched_in_call_order:
  "dispatched tcs evs \<Longrightarrow> in_call_order tcs (evs @ rest) = in_call_order [] rest"
  by (induction tcs evs rule: dispatched.induct) auto

lemma dispatched_stops_at_failure:
  "dispatched tcs evs \<Longrightarrow> stops_at_failure a (evs @ rest) = stops_at_failure a rest"
  by (induction tcs evs rule: dispatched.induct) auto

lemma turns_append: "turns (xs @ ys) = turns xs @ turns ys"
  by (induction xs rule: turns.induct) auto

lemma chat_loop_raise:
  assumes "client_chat e (model self) (history self) tools (world s) = (Inl ex, w')"
  shows "chat_loop e (Suc n) self s =
    (Inr (''Error communicating with Ollama: '' @ str_exc ex), self,
     \<lparr>world = w', calls = calls s @ [ModelCall (model self) (history self) tools (Inl ex)]\<rparr>)"
  using assms by simp

lemma chat_loop_answer:
  assumes "client_chat e (model self) (history self) tools (world s) = (Inr r, w')"
    and "no_tool_calls (tool_calls (chat_response.message r))"
  shows "chat_loop e (Suc n) self s =
    (Inr (content (chat_response.message r)),
     self\<lparr>history := history self @ [chat_response.message r]\<rparr>,
     \<lparr>world = w', calls = calls s @ [ModelCall (model self) (history self) tools (Inr r)]\<rparr>)"
  using assms by (simp add: Let_def)

lemma chat_loop_tools:
  assumes "client_chat e (model self) (history self) tools (world s) = (Inr r, w')"
    and "\<not> no_tool_calls (tool_calls (chat_response.message r))"
  shows "\<exists>evs w''. dispatched (the (tool_calls (chat_response.message r))) evs \<and>
    chat_loop e (Suc n) self s =
      chat_loop e n
        (self\<lparr>history := history self @ chat_response.message r # map as_message (turns evs)\<rparr>)
        \<lparr>world = w'', calls = calls s @ ModelCall (model self) (history self) tools (Inr r) # evs\<rparr>"
proof -
  let ?self1 = "self\<lparr>history := history self @ [chat_response.message r]\<rparr>"
  let ?s1 = "\<lparr>world = w', calls = calls s @ [ModelCall (model self) (history self) tools (Inr r)]\<rparr>"
  obtain evs w'' where p: "process_tool_calls e ?self1 (the (tool_calls (chat_response.message r))) ?s1 =
      (Inr (), ?self1\<lparr>history := history ?self1 @ map as_message (turns evs)\<rparr>,
       \<lparr>world = w'', calls = calls ?s1 @ evs\<rparr>)"
    and d: "dispatched (the (tool_calls (chat_response.message r))) evs"
    using process_tool_calls_run [of e ?self1 "the (tool_calls (chat_response.message r))" ?s1]
    by auto
  have "chat_loop e (Suc n) self s =
      chat_loop e n
        (self\<lparr>history := history self @ chat_response.message r # map as_message (turns evs)\<rparr>)
        \<lparr>world = w'', calls = calls s @ ModelCall (model self) (history self) tools (Inr r) # evs\<rparr>"
    using assms p by (simp add: Let_def)
  with d show ?thesis by blast
qed


lemma dispatched_passes_history:
  "dispatched tcs evs \<Longrightarrow>
   passes_history h (evs @ rest) = passes_history (h @ map as_message (turns evs)) rest"
  by (induction tcs evs arbitrary: h rule: dispatched.induct) auto

lemma chat_loop_run:
  "\<exists>ans self' evs w'.
     chat_loop e n self s = (Inr ans, self', \<lparr>world = w', calls = calls s @ evs\<rparr>)
     \<and> history self' = history self @ map as_message (turns evs)
     \<and> ctx self' = ctx self \<and> model self' = model self
     \<and> in_call_order [] evs
     \<and> stops_at_failure (Inr ans) evs
     \<and> passes_history (history self) evs
     \<and> set (schemas_passed evs) \<subseteq> {tools}
     \<and> length (filter is_model_call evs) \<le> n"
proof (induction n arbitrary: self s)
  case 0
  have "chat_loop e 0 self s = (Inr limit_reached, self, \<lparr>world = world s, calls = calls s @ []\<rparr>)"
    by simp
  then show ?case
    by (intro exI [of _ limit_reached] exI [of _ self] exI [of _ "[]"] exI [of _ "world s"]) simp
next
  case (Suc n)
  obtain r w1 where c: "client_chat e (model self) (history self) tools (world s) = (r, w1)"
    by (cases "client_chat e (model self) (history self) tools (world s)")
  show ?case
  proof (cases r)
    case (Inl ex)
    let ?evs = "[ModelCall (model self) (history self) tools (Inl ex)]"
    have "chat_loop e (Suc n) self s =
        (Inr (''Error communicating with Ollama: '' @ str_exc ex), self,
         \<lparr>world = w1, calls = calls s @ ?evs\<rparr>)"
      using chat_loop_raise [of e self s ex w1 n] c Inl by simp
    then show ?thesis
      by (intro exI [of _ "''Error communicating with Ollama: '' @ str_exc ex"]
          exI [of _ self] exI [of _ ?evs] exI [of _ w1]) simp
  next
    case (Inr resp)
    let ?m = "chat_response.message resp"
    let ?ev = "ModelCall (model self) (history self) tools (Inr resp)"
    show ?thesis
    proof (cases "no_tool_calls (tool_calls ?m)")
      case True
      have "chat_loop e (Suc n) self s =
          (Inr (content ?m), self\<lparr>history := history self @ [?m]\<rparr>,
           \<lparr>world = w1, calls = calls s @ [?ev]\<rparr>)"
        using chat_loop_answer [of e self s resp w1 n] c Inr True by simp
      then show ?thesis using True
        by (intro exI [of _ "content ?m"] exI [of _ "self\<lparr>history := history self @ [?m]\<rparr>"]
            exI [of _ "[?ev]"] exI [of _ w1]) simp
    next
      case False
      obtain evs1 w2 where d: "dispatched (the (tool_calls ?m)) evs1"
        and step: "chat_loop e (Suc n) self s =
          chat_loop e n (self\<lparr>history := history self @ ?m # map as_message (turns evs1)\<rparr>)
            \<lparr>world = w2, calls = calls s @ ?ev # evs1\<rparr>"
        using chat_loop_tools [of e self s resp w1 n] c Inr False by auto
      let ?self2 = "self\<lparr>history := history self @ ?m # map as_message (turns evs1)\<rparr>"
      let ?s2 = "\<lparr>world = w2, calls = calls s @ ?ev # evs1\<rparr>"
      obtain ans self' evs2 w' where
        run: "chat_loop e n ?self2 ?s2 = (Inr ans, self', \<lparr>world = w', calls = calls ?s2 @ evs2\<rparr>)"
        and h: "history self' = history ?self2 @ map as_message (turns evs2)"
        and cm: "ctx self' = ctx ?self2" "model self' = model ?self2"
        and o: "in_call_order [] evs2"
        and f: "stops_at_failure (Inr ans) evs2"
        and p: "passes_history (history ?self2) evs2"
        and t: "set (schemas_passed evs2) \<subseteq> {tools}"
        and l: "length (filter is_model_call evs2) \<le> n"
        using Suc.IH [of ?self2 ?s2] by auto
      let ?evs = "?ev # evs1 @ evs2"
      have 1: "chat_loop e (Suc n) self s = (Inr ans, self', \<lparr>world = w', calls = calls s @ ?evs\<rparr>)"
        using step run by simp
      have 2: "history self' = history self @ map as_message (turns ?evs)"
        using h by (simp add: turns_append)
      have 3: "in_call_order [] ?evs"
        using False o dispatched_in_call_order [OF d] by simp
      have 4: "stops_at_failure (Inr ans) ?evs"
        using f dispatched_stops_at_failure [OF d] by simp
      have 5: "passes_history (history self) ?evs"
        using p dispatched_passes_history [OF d] by simp
      have 6: "set (schemas_passed ?evs) \<subseteq> {tools}"
        using t dispatched_schemas_passed [OF d] by simp
      have 7: "length (filter is_model_call ?evs) \<le> Suc n"
        using l dispatched_no_model_call [OF d] by simp
      show ?thesis
        using 1 2 3 4 5 6 7 cm
        by (intro exI [of _ ans] exI [of _ self'] exI [of _ ?evs] exI [of _ w']) simp
    qed
  qed
qed

lemma chat_loop_exhausts:
  assumes "always_requests_tools e"
  shows "\<exists>self' evs w'.
     chat_loop e n self s = (Inr limit_reached, self', \<lparr>world = w', calls = calls s @ evs\<rparr>)
     \<and> length (filter is_model_call evs) = n"
proof (induction n arbitrary: self s)
  case 0
  have "chat_loop e 0 self s = (Inr limit_reached, self, \<lparr>world = world s, calls = calls s @ []\<rparr>)"
    by simp
  then show ?case
    by (intro exI [of _ self] exI [of _ "[]"] exI [of _ "world s"]) simp
next
  case (Suc n)
  obtain r w1 where c: "client_chat e (model self) (history self) tools (world s) = (r, w1)"
    by (cases "client_chat e (model self) (history self) tools (world s)")
  have "case fst (client_chat e (model self) (history self) tools (world s)) of
          Inl ex \<Rightarrow> False
        | Inr resp \<Rightarrow> \<not> no_tool_calls (tool_calls (chat_response.message resp))"
    using assms unfolding always_requests_tools_def by blast
  with c obtain resp where r: "r = Inr resp"
    and t: "\<not> no_tool_calls (tool_calls (chat_response.message resp))"
    by (cases r) auto
  let ?m = "chat_response.message resp"
  let ?ev = "ModelCall (model self) (history self) tools (Inr resp)"
  obtain evs1 w2 where d: "dispatched (the (tool_calls ?m)) evs1"
    and step: "chat_loop e (Suc n) self s =
      chat_loop e n (self\<lparr>history := history self @ ?m # map as_message (turns evs1)\<rparr>)
        \<lparr>world = w2, calls = calls s @ ?ev # evs1\<rparr>"
    using chat_loop_tools [of e self s resp w1 n] c r t by auto
  let ?self2 = "self\<lparr>history := history self @ ?m # map as_message (turns evs1)\<rparr>"
  let ?s2 = "\<lparr>world = w2, calls = calls s @ ?ev # evs1\<rparr>"
  obtain self' evs2 w' where
    run: "chat_loop e n ?self2 ?s2 = (Inr limit_reached, self', \<lparr>world = w', calls = calls ?s2 @ evs2\<rparr>)"
    and l: "length (filter is_model_call evs2) = n"
    using Suc.IH [of ?self2 ?s2] by auto
  have "chat_loop e (Suc n) self s =
      (Inr limit_reached, self', \<lparr>world = w', calls = calls s @ ?ev # evs1 @ evs2\<rparr>)"
    using step run by simp
  moreover have "length (filter is_model_call (?ev # evs1 @ evs2)) = Suc n"
    using l dispatched_no_model_call [OF d] by simp
  ultimately show ?case
    by (intro exI [of _ self'] exI [of _ "?ev # evs1 @ evs2"] exI [of _ w']) simp
qed

lemma chat_loop_first_call:
  "\<exists>r evs w'. chat_loop e (Suc n) self s =
      (fst (chat_loop e (Suc n) self s), fst (snd (chat_loop e (Suc n) self s)),
       \<lparr>world = w', calls = calls s @ ModelCall (model self) (history self) tools r # evs\<rparr>)
     \<and> r = fst (client_chat e (model self) (history self) tools (world s))"
proof -
  obtain r w1 where c: "client_chat e (model self) (history self) tools (world s) = (r, w1)"
    by (cases "client_chat e (model self) (history self) tools (world s)")
  show ?thesis
  proof (cases r)
    case (Inl ex)
    then show ?thesis
      using chat_loop_raise [of e self s ex w1 n] c by auto
  next
    case (Inr resp)
    show ?thesis
    proof (cases "no_tool_calls (tool_calls (chat_response.message resp))")
      case True
      then show ?thesis
        using chat_loop_answer [of e self s resp w1 n] c Inr by auto
    next
      case False
      let ?m = "chat_response.message resp"
      let ?ev = "ModelCall (model self) (history self) tools (Inr resp)"
      obtain evs1 w2 where
        step: "chat_loop e (Suc n) self s =
          chat_loop e n (self\<lparr>history := history self @ ?m # map as_message (turns evs1)\<rparr>)
            \<lparr>world = w2, calls = calls s @ ?ev # evs1\<rparr>"
        using chat_loop_tools [of e self s resp w1 n] c Inr False by auto
      let ?self2 = "self\<lparr>history := history self @ ?m # map as_message (turns evs1)\<rparr>"
      let ?s2 = "\<lparr>world = w2, calls = calls s @ ?ev # evs1\<rparr>"
      obtain ans self' evs2 w' where
        run: "chat_loop e n ?self2 ?s2 = (Inr ans, self', \<lparr>world = w', calls = calls ?s2 @ evs2\<rparr>)"
        using chat_loop_run [of e n ?self2 ?s2] by auto
      have "chat_loop e (Suc n) self s =
          (Inr ans, self', \<lparr>world = w', calls = calls s @ ?ev # (evs1 @ evs2)\<rparr>)"
        using step run by simp
      then show ?thesis using c Inr
        by (intro exI [of _ "Inr resp"] exI [of _ "evs1 @ evs2"] exI [of _ w']) simp
    qed
  qed
qed

lemma try_body_history [simp]: "try_body e (self\<lparr>history := h\<rparr>) nm args w = try_body e self nm args w"
  by (simp add: try_body_def)

lemma execute_tool_history [simp]:
  "execute_tool e (self\<lparr>history := h\<rparr>) nm args w = execute_tool e self nm args w"
  by (simp add: execute_tool_def)

lemma error_payload_text:
  \<open>json_dumps (PDict [(''error'', PStr x)]) = ''{"error": '' @ encode_str x @ ''}''\<close>
  by (simp add: encode_str_def escape_char_def)

lemma chat_run:
  "\<exists>ans self' evs w'.
     chat e self query s = (Inr ans, self', \<lparr>world = w', calls = calls s @ evs\<rparr>)
     \<and> new_events s (snd (snd (chat e self query s))) = evs
     \<and> history self' = history self @ user_message query # map as_message (turns evs)
     \<and> ctx self' = ctx self \<and> model self' = model self
     \<and> in_call_order [] evs
     \<and> passes_history (history self @ [user_message query]) evs
     \<and> set (schemas_passed evs) \<subseteq> {tools}"
proof -
  let ?self1 = "self\<lparr>history := history self @ [user_message query]\<rparr>"
  obtain ans self' evs w' where
    run: "chat_loop e 5 ?self1 s = (Inr ans, self', \<lparr>world = w', calls = calls s @ evs\<rparr>)"
    and rest: "history self' = history ?self1 @ map as_message (turns evs)"
      "ctx self' = ctx ?self1" "model self' = model ?self1"
      "in_call_order [] evs" "passes_history (history ?self1) evs"
      "set (schemas_passed evs) \<subseteq> {tools}"
    using chat_loop_run [of e 5 ?self1 s] by auto
  have "chat e self query s = (Inr ans, self', \<lparr>world = w', calls = calls s @ evs\<rparr>)"
    using run by (simp add: chat_def)
  then show ?thesis using rest
    by (intro exI [of _ ans] exI [of _ self'] exI [of _ evs] exI [of _ w'])
       (simp add: new_events_def)
qed

lemma chat_first_call:
  "\<exists>evs. new_events s (snd (snd (chat e self query s))) =
     ModelCall (model self) (history self @ [user_message query]) tools
       (fst (client_chat e (model self) (history self @ [user_message query]) tools (world s)))
     # evs"
proof -
  let ?self1 = "self\<lparr>history := history self @ [user_message query]\<rparr>"
  obtain r evs w' where
    "chat_loop e (Suc 4) ?self1 s =
      (fst (chat_loop e (Suc 4) ?self1 s), fst (snd (chat_loop e (Suc 4) ?self1 s)),
       \<lparr>world = w', calls = calls s @ ModelCall (model ?self1) (history ?self1) tools r # evs\<rparr>)"
    and "r = fst (client_chat e (model ?self1) (history ?self1) tools (world s))"
    using chat_loop_first_call [of e 4 ?self1 s] by blast
  then have "snd (snd (chat_loop e (Suc 4) ?self1 s)) =
       \<lparr>world = w', calls = calls s @ ModelCall (model ?self1) (history ?self1) tools
          (fst (client_chat e (model ?self1) (history ?self1) tools (world s))) # evs\<rparr>"
    by (metis snd_conv)
  then show ?thesis
    by (simp add: chat_def new_events_def del: chat_loop.simps)
qed

lemma schema_names_tools:
  "schema_names tools =
     [''superset_database_list'', ''superset_database_get_tables'',
      ''superset_database_schemas'', ''superset_sqllab_execute_query'',
      ''superset_chart_create'', ''superset_dataset_list'']"
  by (simp add: schema_names_def tools_def tool_schema_def schema_name_def List.map_filter_simps)

lemma dispatchable_iff:
  "dispatchable nm \<longleftrightarrow>
     nm \<in> {''superset_database_list'', ''superset_database_get_tables'',
      ''superset_database_schemas'', ''superset_sqllab_execute_query'',
      ''superset_chart_create'', ''superset_dataset_list''}"
proof
  assume "dispatchable nm"
  then obtain e :: "(unit, unit) env" and self args where
    "try_body e self nm args () \<noteq> (Inr (PDict [(''error'', PStr (''Unknown tool: '' @ nm))]), ())"
    unfolding dispatchable_def by blast
  then show "nm \<in> {''superset_database_list'', ''superset_database_get_tables'',
      ''superset_database_schemas'', ''superset_sqllab_execute_query'',
      ''superset_chart_create'', ''superset_dataset_list''}"
    by (auto simp: try_body_def split: if_splits)
next
  assume "nm \<in> {''superset_database_list'', ''superset_database_get_tables'',
      ''superset_database_schemas'', ''superset_sqllab_execute_query'',
      ''superset_chart_create'', ''superset_dataset_list''}"
  then have "try_body idle \<lparr>ctx = (), model = [], history = []\<rparr> nm [] () = (Inr PNone, ())"
    by (auto simp: try_body_def idle_def)
  then have "try_body idle \<lparr>ctx = (), model = [], history = []\<rparr> nm [] ()
      \<noteq> (Inr (PDict [(''error'', PStr (''Unknown tool: '' @ nm))]), ())"
    by simp
  then show "dispatchable nm"
    unfolding dispatchable_def by blast
qed

lemma printable_append [simp]: "printable (a @ b) \<longleftrightarrow> printable a \<and> printable b"
  by (simp add: printable_def)

lemma printable_Nil [simp]: "printable []"
  by (simp add: printable_def)

lemma printable_Cons [simp]:
  "printable (c # t) \<longleftrightarrow>
     32 \<le> (of_char c :: nat) \<and> (of_char c :: nat) \<le> 126 \<and> printable t"
  by (simp add: printable_def)

lemma digit_char_range:
  "32 \<le> (of_char (digit_char d) :: nat) \<and> (of_char (digit_char d) :: nat) \<le> 126"
proof -
  have "list_all (\<lambda>c. 32 \<le> (of_char c :: nat) \<and> (of_char c :: nat) \<le> 126) ''0123456789abcdef''"
    by simp
  moreover have "d mod 16 < length ''0123456789abcdef''" by simp
  ultimately have "32 \<le> (of_char (''0123456789abcdef'' ! (d mod 16)) :: nat) \<and>
      (of_char (''0123456789abcdef'' ! (d mod 16)) :: nat) \<le> 126"
    unfolding list_all_length by blast
  then show ?thesis by (simp add: digit_char_def)
qed

lemma printable_digits: "printable (digits n)"
proof (induction n rule: digits.induct)
  case (1 n)
  show ?case
  proof (cases "n < 10")
    case True
    then show ?thesis by (subst digits.simps) (simp add: digit_char_range)
  next
    case False
    then show ?thesis using 1 by (subst digits.simps) (simp add: digit_char_range)
  qed
qed

lemma printable_str_int: "printable (str_int i)"
proof -
  show ?thesis by (simp add: str_int_def printable_digits)
qed

lemma printable_escape_char: "printable (escape_char c)"
proof -
  show ?thesis
    by (simp add: escape_char_def digit_char_range)
qed

lemma printable_concat: "(\<And>p. p \<in> set ps \<Longrightarrow> printable p) \<Longrightarrow> printable (concat ps)"
  by (induction ps) auto

lemma printable_encode_str: "printable (encode_str t)"
proof -
  have "printable (concat (map escape_char t))"
    by (rule printable_concat) (auto simp: printable_escape_char)
  moreover have "printable [CHR 0x22]" by (simp add: printable_def)
  ultimately have "printable ([CHR 0x22] @ concat (map escape_char t) @ [CHR 0x22])"
    by simp
  then show ?thesis by (simp add: encode_str_def)
qed

lemma printable_join:
  "printable sep \<Longrightarrow> (\<And>p. p \<in> set ps \<Longrightarrow> printable p) \<Longrightarrow> printable (join sep ps)"
  by (induction sep ps rule: join.induct) auto

lemma printable_json_dumps: "float_texts_printable v \<Longrightarrow> printable (json_dumps v)"
proof (induction v rule: json_dumps.induct)
  case (6 vs)
  have "printable (join '', '' (map json_dumps vs))"
  proof (rule printable_join)
    show "printable '', ''" by (simp add: printable_def)
  next
    fix p assume "p \<in> set (map json_dumps vs)"
    then obtain x where "x \<in> set vs" "p = json_dumps x" by auto
    moreover from this 6(2) have "float_texts_printable x" by (simp add: list_all_iff)
    ultimately show "printable p" using 6(1) by simp
  qed
  moreover have "printable ''[''" "printable '']''" by (simp_all add: printable_def)
  ultimately show ?case by simp
next
  case (7 kvs)
  have "printable (join '', '' (map (\<lambda>(k, v). encode_str k @ '': '' @ json_dumps v) kvs))"
  proof (rule printable_join)
    show "printable '', ''" by (simp add: printable_def)
  next
    fix p assume "p \<in> set (map (\<lambda>(k, v). encode_str k @ '': '' @ json_dumps v) kvs)"
    then obtain k x where kx: "(k, x) \<in> set kvs" "p = encode_str k @ '': '' @ json_dumps x"
      by auto
    moreover from kx 7(2) have "float_texts_printable x" by (auto simp: list_all_iff)
    ultimately have "printable (json_dumps x)" using 7(1) by simp
    moreover have "printable '': ''" by (simp add: printable_def)
    ultimately show "printable p" using kx printable_encode_str by simp
  qed
  moreover have "printable ''{''" "printable ''}''" by (simp_all add: printable_def)
  ultimately show ?case by simp
qed (simp_all add: printable_str_int printable_encode_str)

lemma json_dumps_coerce: "json_dumps (coerce v) = json_dumps v"
proof (induction v rule: json_dumps.induct)
  case (6 vs)
  have "map (json_dumps \<circ> coerce) vs = map json_dumps vs"
    using 6 by auto
  then show ?case by (simp only: coerce.simps json_dumps.simps map_map)
next
  case (7 kvs)
  have "map (\<lambda>(k, v). encode_str k @ '': '' @ json_dumps v) (map (\<lambda>(k, v). (k, coerce v)) kvs)
      = map (\<lambda>(k, v). encode_str k @ '': '' @ json_dumps v) kvs"
    using 7 by (auto simp: case_prod_beta)
  then show ?case by (simp only: coerce.simps json_dumps.simps)
qed simp_all

lemma primitive_coerce: "primitive (coerce v)"
  by (induction v rule: coerce.induct) (auto simp: list_all_iff)

lemma process_tool_calls_events:
  "fst (process_tool_calls e self tcs s) = Inr ()
   \<and> dispatched tcs (new_events s (snd (snd (process_tool_calls e self tcs s))))
   \<and> history (fst (snd (process_tool_calls e self tcs s))) =
       history self @
         map as_message (turns (new_events s (snd (snd (process_tool_calls e self tcs s)))))"
proof -
  obtain evs w' where
    "process_tool_calls e self tcs s =
      (Inr (), self\<lparr>history := history self @ map as_message (turns evs)\<rparr>,
       \<lparr>world = w', calls = calls s @ evs\<rparr>)"
    and "dispatched tcs evs"
    using process_tool_calls_run [of e self tcs s] by blast
  then show ?thesis by (simp add: new_events_def)
qed

lemma spec_tool_messages_Nil [simp]: "spec_tool_messages [] vs = []"
  by (simp add: spec_tool_messages_def)

lemma spec_tool_messages_Cons [simp]:
  "spec_tool_messages (tc # tcs) (v # vs) =
     tool_message (function_call.name (function tc)) v # spec_tool_messages tcs vs"
  by (simp add: spec_tool_messages_def tool_message_def)



section \<open>The claims\<close>

text \<open>
  C1. Whatever the tools do, if the model answers every call with at least one tool
  invocation request, \<^verbatim>\<open>chat\<close> returns the fixed message
  \<^verbatim>\<open>Agent loop limit reached without final answer.\<close> after exactly five chat calls:
  the log of the run is the log it started from followed by the entries of the run, and
  five of these are chat calls, so there is no sixth.
\<close>

theorem chat_stops_after_five_rounds:
  assumes "always_requests_tools e"
  shows "fst (chat e self query s) = Inr ''Agent loop limit reached without final answer.''
    \<and> calls (snd (snd (chat e self query s))) =
        calls s @ new_events s (snd (snd (chat e self query s)))
    \<and> length (filter is_model_call (new_events s (snd (snd (chat e self query s))))) = 5"
proof -
  obtain self' evs w' where
    "chat_loop e 5 (self\<lparr>history := history self @ [user_message query]\<rparr>) s =
       (Inr limit_reached, self', \<lparr>world = w', calls = calls s @ evs\<rparr>)"
    and "length (filter is_model_call evs) = 5"
    using chat_loop_exhausts [OF assms, of 5 "self\<lparr>history := history self @ [user_message query]\<rparr>" s]
    by auto
  then show ?thesis
    by (simp add: chat_def new_events_def limit_reached_def)
qed

theorem chat_stops_after_five_rounds_witness:
  "always_requests_tools (demo_env always_request)
   \<and> fst (chat (demo_env always_request) agent0 ''show me sales by region'' io0) =
       Inr ''Agent loop limit reached without final answer.''
   \<and> length (filter is_model_call
        (new_events io0 (snd (snd (chat (demo_env always_request) agent0
           ''show me sales by region'' io0))))) = 5"
proof -
  have h: "always_requests_tools (demo_env always_request)"
    by (simp add: always_requests_tools_def demo_env_def always_request_def request_def
        no_tool_calls_def)
  show ?thesis
    using h chat_stops_after_five_rounds [OF h, of agent0 "''show me sales by region''" io0]
    by simp
qed

text \<open>
  C2. For a name that is none of the six the dispatch compares with,
  \<^verbatim>\<open>_execute_tool\<close> returns the dictionary \<^verbatim>\<open>{"error": "Unknown tool: <name>"}\<close>
  as its result (\<open>Inr\<close>: no exception leaves the function), calls no collaborator
  and leaves the world as it was.
\<close>

theorem unknown_tool_error_payload:
  assumes "nm \<notin> {''superset_database_list'', ''superset_database_schemas'',
      ''superset_database_get_tables'', ''superset_sqllab_execute_query'',
      ''superset_chart_create'', ''superset_dataset_list''}"
  shows "execute_tool e self nm args w =
           (Inr (PDict [(''error'', PStr (''Unknown tool: '' @ nm))]), w)"
  using assms by (simp add: execute_tool_def try_body_def)

theorem unknown_tool_error_payload_witness:
  "''superset_database_lsit'' \<notin> {''superset_database_list'', ''superset_database_schemas'',
      ''superset_database_get_tables'', ''superset_sqllab_execute_query'',
      ''superset_chart_create'', ''superset_dataset_list''}
   \<and> execute_tool (demo_env list_then_answer) agent0 ''superset_database_lsit'' [] 0 =
         (Inr (PDict [(''error'', PStr ''Unknown tool: superset_database_lsit'')]), 0)"
  using unknown_tool_error_payload
    [of "''superset_database_lsit''" "demo_env list_then_answer" agent0 "[]" 0]
  by simp

text \<open>
  C4. In any round, a chat call that raises ends the loop there: the answer is
  \<^verbatim>\<open>Error communicating with Ollama: \<close> followed by the text of the exception, the
  agent is left as it was before the call, and the log gains this one chat call and
  no tool invocation. For a whole run of \<^verbatim>\<open>chat\<close>: a chat call of the log that
  raised is the last entry of the log, so nothing is retried and nothing follows, and
  the answer is that error message.
\<close>

theorem model_failure_ends_loop:
  "(client_chat e (model self) (history self) tools (world s) = (Inl ex, w') \<longrightarrow>
      chat_loop e (Suc n) self s =
        (Inr (''Error communicating with Ollama: '' @ str_exc ex), self,
         \<lparr>world = w',
          calls = calls s @ [ModelCall (model self) (history self) tools (Inl ex)]\<rparr>))
   \<and> stops_at_failure (fst (chat e self query s))
        (new_events s (snd (snd (chat e self query s))))"
proof -
  obtain ans self' evs w1 where
    "chat_loop e 5 (self\<lparr>history := history self @ [user_message query]\<rparr>) s =
       (Inr ans, self', \<lparr>world = w1, calls = calls s @ evs\<rparr>)"
    and "stops_at_failure (Inr ans) evs"
    using chat_loop_run [of e 5 "self\<lparr>history := history self @ [user_message query]\<rparr>" s]
    by auto
  then have "stops_at_failure (fst (chat e self query s))
        (new_events s (snd (snd (chat e self query s))))"
    by (simp add: chat_def new_events_def)
  then show ?thesis
    using chat_loop_raise [of e self s ex w' n] by blast
qed

theorem model_failure_ends_loop_witness:
  "client_chat (demo_env model_down) (model agent0) (history agent0) tools (world io0) =
     (Inl (Exception ''Failed to connect to Ollama''), 1)
   \<and> chat_loop (demo_env model_down) 5 agent0 io0 =
       (Inr ''Error communicating with Ollama: Failed to connect to Ollama'', agent0,
        \<lparr>world = 1,
         calls = [ModelCall (model agent0) (history agent0) tools
                    (Inl (Exception ''Failed to connect to Ollama''))]\<rparr>)"
proof -
  have h: "client_chat (demo_env model_down) (model agent0) (history agent0) tools (world io0) =
     (Inl (Exception ''Failed to connect to Ollama''), 1)"
    by (simp add: demo_env_def model_down_def io0_def)
  have "Suc 4 = 5" by simp
  then show ?thesis
    using h model_failure_ends_loop
      [of "demo_env model_down" agent0 io0 "Exception ''Failed to connect to Ollama''" 1 4]
    by (simp add: io0_def)
qed

text \<open>
  C5. When the first response of the model has no tool calls (the key is absent or the
  list is empty), \<^verbatim>\<open>chat\<close> returns the content of that message unchanged; the
  history gains the user message and the message of the model, and the log gains the
  one chat call and no tool invocation.
\<close>

theorem plain_answer_returned:
  assumes "client_chat e (model self) (history self @ [user_message query]) tools (world s) =
             (Inr r, w')"
    and "tool_calls (chat_response.message r) = None
         \<or> tool_calls (chat_response.message r) = Some []"
  shows "chat e self query s =
    (Inr (content (chat_response.message r)),
     self\<lparr>history := history self @ [user_message query, chat_response.message r]\<rparr>,
     \<lparr>world = w',
      calls = calls s @
        [ModelCall (model self) (history self @ [user_message query]) tools (Inr r)]\<rparr>)"
proof -
  have n: "no_tool_calls (tool_calls (chat_response.message r))"
    using assms(2) by (auto simp: no_tool_calls_def)
  have "chat e self query s =
      chat_loop e (Suc 4) (self\<lparr>history := history self @ [user_message query]\<rparr>) s"
    by (simp add: chat_def)
  also have "\<dots> = (Inr (content (chat_response.message r)),
     self\<lparr>history := history self @ [user_message query, chat_response.message r]\<rparr>,
     \<lparr>world = w',
      calls = calls s @
        [ModelCall (model self) (history self @ [user_message query]) tools (Inr r)]\<rparr>)"
    using chat_loop_answer
      [of e "self\<lparr>history := history self @ [user_message query]\<rparr>" s r w' 4] assms(1) n
    by simp
  finally show ?thesis .
qed

theorem plain_answer_returned_witness:
  "client_chat (demo_env plain_answer) (model agent0)
      (history agent0 @ [user_message ''show me sales'']) tools (world io0) =
     (Inr (answer ''Which database do you mean?''), 1)
   \<and> (tool_calls (chat_response.message (answer ''Which database do you mean?'')) = None
      \<or> tool_calls (chat_response.message (answer ''Which database do you mean?'')) = Some [])
   \<and> fst (chat (demo_env plain_answer) agent0 ''show me sales'' io0) =
       Inr ''Which database do you mean?''
   \<and> calls (snd (snd (chat (demo_env plain_answer) agent0 ''show me sales'' io0))) =
       [ModelCall ''llama3'' (history agent0 @ [user_message ''show me sales'']) tools
          (Inr (answer ''Which database do you mean?''))]"
proof -
  have h1: "client_chat (demo_env plain_answer) (model agent0)
      (history agent0 @ [user_message ''show me sales'']) tools (world io0) =
     (Inr (answer ''Which database do you mean?''), 1)"
    by (simp add: demo_env_def plain_answer_def io0_def)
  have h2: "tool_calls (chat_response.message (answer ''Which database do you mean?'')) = None
      \<or> tool_calls (chat_response.message (answer ''Which database do you mean?'')) = Some []"
    by (simp add: answer_def)
  show ?thesis
    using h1 h2 plain_answer_returned [OF h1 h2]
    by (simp add: answer_def io0_def agent0_def init_def)
qed

text \<open>
  C3. When the collaborator called for a tool invocation raises (the body of the
  \<^verbatim>\<open>try\<close> ends in an exception, which only the call of a recognized name can
  do), \<^verbatim>\<open>_execute_tool\<close> returns the dictionary
  \<^verbatim>\<open>{"error": str(e)}\<close> as its result. The loop over the tool calls appends a tool
  message named after the operation whose content is that dictionary as JSON text,
  which contains the text of the exception, and goes on with the remaining calls; it
  does not end in an exception. When the round asked for this one invocation, the next
  chat call is given the conversation that ends with the message of the model and this
  tool message.
\<close>

theorem collaborator_exception_caught:
  assumes raised: "try_body e self nm args w = (Inl ex, w')"
    and response: "client_chat e (model self) (history self) tools w0 = (Inr r, w)"
    and request: "tool_calls (chat_response.message r) =
                    Some [\<lparr>function = \<lparr>function_call.name = nm, arguments = args\<rparr>\<rparr>]"
  shows \<open>nm \<in> {''superset_database_list'', ''superset_database_schemas'',
        ''superset_database_get_tables'', ''superset_sqllab_execute_query'',
        ''superset_chart_create'', ''superset_dataset_list''}
    \<and> execute_tool e self nm args w = (Inr (PDict [(''error'', PStr (str_exc ex))]), w')
    \<and> process_tool_calls e self
          (\<lparr>function = \<lparr>function_call.name = nm, arguments = args\<rparr>\<rparr> # rest)
          \<lparr>world = w, calls = cs\<rparr> =
        process_tool_calls e
          (self\<lparr>history := history self @
             [\<lparr>role = ''tool'', content = ''{"error": '' @ encode_str (str_exc ex) @ ''}'',
               tool_calls = None, name = Some nm\<rparr>]\<rparr>)
          rest
          \<lparr>world = w',
           calls = cs @ [ToolDispatch nm args (Inr (PDict [(''error'', PStr (str_exc ex))]))]\<rparr>
    \<and> fst (process_tool_calls e self
          (\<lparr>function = \<lparr>function_call.name = nm, arguments = args\<rparr>\<rparr> # rest)
          \<lparr>world = w, calls = cs\<rparr>) = Inr ()
    \<and> take 2 (messages_passed (new_events \<lparr>world = w0, calls = cs\<rparr>
          (snd (snd (chat_loop e (Suc (Suc k)) self \<lparr>world = w0, calls = cs\<rparr>))))) =
        [history self,
         history self @
           [chat_response.message r,
            \<lparr>role = ''tool'', content = ''{"error": '' @ encode_str (str_exc ex) @ ''}'',
              tool_calls = None, name = Some nm\<rparr>]]\<close>
proof -
  let ?payload = "PDict [(''error'', PStr (str_exc ex))]"
  let ?tc = "\<lparr>function = \<lparr>function_call.name = nm, arguments = args\<rparr>\<rparr>"
  let ?tm = \<open>\<lparr>role = ''tool'', content = ''{"error": '' @ encode_str (str_exc ex) @ ''}'',
              tool_calls = None, name = Some nm\<rparr>\<close>
  have tm: "tool_message nm ?payload = ?tm"
    by (simp only: tool_message_def error_payload_text)
  have 1: "execute_tool e self nm args w = (Inr ?payload, w')"
    using raised by (simp add: execute_tool_def)
  have 2: "process_tool_calls e self (?tc # rest) \<lparr>world = w, calls = cs\<rparr> =
        process_tool_calls e (self\<lparr>history := history self @ [?tm]\<rparr>) rest
          \<lparr>world = w', calls = cs @ [ToolDispatch nm args (Inr ?payload)]\<rparr>"
    using 1 tm by (simp add: Let_def)
  have 3: "fst (process_tool_calls e self (?tc # rest) \<lparr>world = w, calls = cs\<rparr>) = Inr ()"
    using process_tool_calls_run [of e self "?tc # rest" "\<lparr>world = w, calls = cs\<rparr>"] by auto
  let ?s0 = "\<lparr>world = w0, calls = cs\<rparr>"
  let ?m = "chat_response.message r"
  let ?ev = "ModelCall (model self) (history self) tools (Inr r)"
  let ?self2 = "self\<lparr>history := history self @ [?m, ?tm]\<rparr>"
  let ?s2 = "\<lparr>world = w', calls = cs @ [?ev, ToolDispatch nm args (Inr ?payload)]\<rparr>"
  have nt: "\<not> no_tool_calls (tool_calls ?m)"
    using request by (simp add: no_tool_calls_def)
  have "process_tool_calls e (self\<lparr>history := history self @ [?m]\<rparr>) [?tc]
          \<lparr>world = w, calls = cs @ [?ev]\<rparr> = (Inr (), ?self2, ?s2)"
    using 1 tm by (simp add: Let_def)
  then have step: "chat_loop e (Suc (Suc k)) self ?s0 = chat_loop e (Suc k) ?self2 ?s2"
    using response request nt
    by (subst chat_loop.simps(2)) (simp add: Let_def del: chat_loop.simps process_tool_calls.simps)
  obtain r2 evs w2 where
    "chat_loop e (Suc k) ?self2 ?s2 =
      (fst (chat_loop e (Suc k) ?self2 ?s2), fst (snd (chat_loop e (Suc k) ?self2 ?s2)),
       \<lparr>world = w2, calls = calls ?s2 @ ModelCall (model ?self2) (history ?self2) tools r2 # evs\<rparr>)"
    using chat_loop_first_call [of e k ?self2 ?s2] by blast
  then have "snd (snd (chat_loop e (Suc k) ?self2 ?s2)) =
      \<lparr>world = w2, calls = calls ?s2 @ ModelCall (model ?self2) (history ?self2) tools r2 # evs\<rparr>"
    by (metis snd_conv)
  then have "snd (snd (chat_loop e (Suc (Suc k)) self ?s0)) =
      \<lparr>world = w2, calls = cs @ [?ev, ToolDispatch nm args (Inr ?payload)] @
         ModelCall (model self) (history self @ [?m, ?tm]) tools r2 # evs\<rparr>"
    unfolding step by simp
  then have 4: "take 2 (messages_passed (new_events ?s0
        (snd (snd (chat_loop e (Suc (Suc k)) self ?s0))))) =
      [history self, history self @ [?m, ?tm]]"
    by (simp add: new_events_def)
  have 0: "nm \<in> {''superset_database_list'', ''superset_database_schemas'',
        ''superset_database_get_tables'', ''superset_sqllab_execute_query'',
        ''superset_chart_create'', ''superset_dataset_list''}"
    using raised by (auto simp: try_body_def split: if_splits)
  show ?thesis using 0 1 2 3 4 by blast
qed

theorem collaborator_exception_caught_witness:
  "try_body (demo_env schemas_then_answer) agent0 ''superset_database_schemas''
      [(''database_id'', PInt 1)] 1 = (Inl (Exception ''Connection refused''), 1)
   \<and> client_chat (demo_env schemas_then_answer) (model agent0) (history agent0) tools 0 =
       (Inr (request ''superset_database_schemas'' [(''database_id'', PInt 1)]), 1)
   \<and> tool_calls (chat_response.message
         (request ''superset_database_schemas'' [(''database_id'', PInt 1)])) =
       Some [\<lparr>function = \<lparr>function_call.name = ''superset_database_schemas'',
                              arguments = [(''database_id'', PInt 1)]\<rparr>\<rparr>]
   \<and> execute_tool (demo_env schemas_then_answer) agent0 ''superset_database_schemas''
         [(''database_id'', PInt 1)] 1 =
       (Inr (PDict [(''error'', PStr ''Connection refused'')]), 1)"
proof -
  have h1: "try_body (demo_env schemas_then_answer) agent0 ''superset_database_schemas''
      [(''database_id'', PInt 1)] 1 = (Inl (Exception ''Connection refused''), 1)"
    by (simp add: try_body_def demo_env_def)
  have h2: "client_chat (demo_env schemas_then_answer) (model agent0) (history agent0) tools 0 =
       (Inr (request ''superset_database_schemas'' [(''database_id'', PInt 1)]), 1)"
    by (simp add: demo_env_def schemas_then_answer_def)
  have h3: "tool_calls (chat_response.message
         (request ''superset_database_schemas'' [(''database_id'', PInt 1)])) =
       Some [\<lparr>function = \<lparr>function_call.name = ''superset_database_schemas'',
                              arguments = [(''database_id'', PInt 1)]\<rparr>\<rparr>]"
    by (simp add: request_def)
  show ?thesis
    using h1 h2 h3 collaborator_exception_caught [OF h1 h2 h3]
    by simp
qed



text \<open>
  C7. The schema list names six operations; a name is among them exactly when
  \<^verbatim>\<open>_execute_tool\<close> dispatches it, that is, does not treat it as an unknown tool; and
  every chat call of a run of \<^verbatim>\<open>chat\<close> is given this same list.
\<close>

theorem schemas_match_dispatch:
  "schema_names tools =
     [''superset_database_list'', ''superset_database_get_tables'',
      ''superset_database_schemas'', ''superset_sqllab_execute_query'',
      ''superset_chart_create'', ''superset_dataset_list'']
   \<and> set (schema_names tools) = {nm. dispatchable nm}
   \<and> schemas_passed (new_events s (snd (snd (chat e self query s)))) =
       replicate (length (schemas_passed (new_events s (snd (snd (chat e self query s)))))) tools"
proof -
  have "set (schemas_passed (new_events s (snd (snd (chat e self query s))))) \<subseteq> {tools}"
    using chat_run [of e self query s] by auto
  then have "schemas_passed (new_events s (snd (snd (chat e self query s)))) =
       replicate (length (schemas_passed (new_events s (snd (snd (chat e self query s)))))) tools"
    by (intro replicate_eqI) auto
  moreover have "set (schema_names tools) = {nm. dispatchable nm}"
    unfolding schema_names_tools using dispatchable_iff by auto
  ultimately show ?thesis using schema_names_tools by simp
qed

text \<open>
  C8, as the specification states it, does not hold: at a request for
  \<^verbatim>\<open>superset_database_list\<close> that carries an argument, \<^verbatim>\<open>_execute_tool\<close> calls
  the collaborator with the context alone and returns the databases, where a dispatch
  that unpacked the argument mapping would have met the refusal of the unexpected
  keyword and returned an error payload.
\<close>

theorem list_operations_ignore_arguments:
  "execute_tool (demo_env plain_answer) agent0 ''superset_database_list''
      [(''limit'', PInt 5)] 0 = (Inr databases, 0)
   \<and> spec_execute_tool (demo_env plain_answer) agent0 ''superset_database_list''
      [(''limit'', PInt 5)] 0 =
       (Inr (PDict [(''error'', PStr ''got an unexpected keyword argument'')]), 0)
   \<and> execute_tool (demo_env plain_answer) agent0 ''superset_database_list''
      [(''limit'', PInt 5)] 0
     \<noteq> spec_execute_tool (demo_env plain_answer) agent0 ''superset_database_list''
      [(''limit'', PInt 5)] 0"
  by (simp add: execute_tool_def try_body_def spec_execute_tool_def registry_def demo_env_def
      no_parameters_def databases_def)

text \<open>
  C8, amended. For the four operations that take parameters
  (\<^verbatim>\<open>superset_database_schemas\<close>, \<^verbatim>\<open>superset_database_get_tables\<close>,
  \<^verbatim>\<open>superset_sqllab_execute_query\<close>, \<^verbatim>\<open>superset_chart_create\<close>)
  \<^verbatim>\<open>_execute_tool\<close> calls the collaborator with the argument mapping of the request
  unpacked as keyword parameters, whatever the mapping holds; for
  \<^verbatim>\<open>superset_database_list\<close> and \<^verbatim>\<open>superset_dataset_list\<close> it calls the
  collaborator with the context alone and ignores the mapping. In both cases the
  outcome of the call is all that decides the result.
\<close>

theorem arguments_unpacked_for_operations_with_parameters:
  "execute_tool e self nm args w =
     spec_execute_tool e self nm
       (if nm = ''superset_database_list'' \<or> nm = ''superset_dataset_list'' then [] else args) w"
  by (simp add: execute_tool_def try_body_def spec_execute_tool_def registry_def)

text \<open>
  C9. The loop over the tool calls of a message never ends in an exception; its log
  entries are the invocations of these calls, each with a result, and each result,
  whether a payload of the collaborator or an error dictionary, is appended to the
  history as a tool message whose content is the text \<^verbatim>\<open>json.dumps(result, default=str)\<close>.
  In that text an object that JSON has no form for stands as the string \<^verbatim>\<open>str\<close>
  gives for it: the text of a value is the text of the value with every such object
  replaced by that string, in which none is left. The text consists of characters
  between the space and the tilde, provided the floats inside the value are printed so.
\<close>

theorem tool_results_serialized:
  "fst (process_tool_calls e self tcs s) = Inr ()
   \<and> dispatched tcs (new_events s (snd (snd (process_tool_calls e self tcs s))))
   \<and> history (fst (snd (process_tool_calls e self tcs s))) =
       history self @
         map as_message (turns (new_events s (snd (snd (process_tool_calls e self tcs s)))))
   \<and> as_message (Tool nm v) =
       \<lparr>role = ''tool'', content = json_dumps v, tool_calls = None, name = Some nm\<rparr>
   \<and> json_dumps (PObject x) = json_dumps (PStr x)
   \<and> json_dumps v = json_dumps (coerce v) \<and> primitive (coerce v)
   \<and> (float_texts_printable v \<longrightarrow> printable (json_dumps v))"
  using process_tool_calls_events [of e self tcs s] json_dumps_coerce [of v]
    primitive_coerce [of v] printable_json_dumps [of v]
  by simp

theorem tool_results_serialized_witness:
  \<open>float_texts_printable (PList [PObject ''<Result>'', PFloat ''1.5''])
   \<and> printable (json_dumps (PList [PObject ''<Result>'', PFloat ''1.5'']))
   \<and> json_dumps (PList [PObject ''<Result>'', PFloat ''1.5'']) = ''["<Result>", 1.5]''\<close>
proof -
  have h: "float_texts_printable (PList [PObject ''<Result>'', PFloat ''1.5''])"
    by (simp add: printable_def)
  have "json_dumps (PList [PObject ''<Result>'', PFloat ''1.5'']) = [CHR ''['', CHR 0x22] @ ''<Result>'' @ [CHR 0x22] @ '', 1.5]''"
    by (simp add: encode_str_def escape_char_def)
  then show ?thesis
    using h tool_results_serialized [of idle "\<lparr>ctx = (), model = [], history = []\<rparr>" "[]"
        "\<lparr>world = (), calls = []\<rparr>" "[]" "PList [PObject ''<Result>'', PFloat ''1.5'']" "[]"]
    by simp
qed

text \<open>
  C10. A new agent has the system prompt as its only message. A call of \<^verbatim>\<open>chat\<close>
  leaves the history it found in place and appends to it: the user message, then what
  the entries of the run are folded into. A second call on the agent the first one left
  passes to its first chat call the whole history of the first call followed by the new
  user message, and to every later chat call the conversation so far. When the chat call
  of the first round raises, the history the call leaves is the one it found followed by
  the user message, which the next call therefore passes on.
\<close>

theorem history_only_grows:
  "history (init c m) =
     [\<lparr>role = ''system'', content = SYSTEM_PROMPT, tool_calls = None, name = None\<rparr>]
   \<and> (let (answer1, self1, s1) = chat e self query1 s;
           (answer2, self2, s2) = chat e self1 query2 s1
       in history self1 =
            history self @ user_message query1 # map as_message (turns (new_events s s1))
        \<and> history self2 =
            history self1 @ user_message query2 # map as_message (turns (new_events s1 s2))
        \<and> passes_history (history self1 @ [user_message query2]) (new_events s1 s2)
        \<and> hd (new_events s1 s2) =
            ModelCall (model self) (history self1 @ [user_message query2]) tools
              (fst (client_chat e (model self) (history self1 @ [user_message query2]) tools
                 (world s1))))
   \<and> (fst (client_chat e (model self) (history self @ [user_message query1]) tools (world s))
         = Inl ex \<longrightarrow>
       history (fst (snd (chat e self query1 s))) = history self @ [user_message query1])"
proof -
  obtain answer1 self1 s1 where c1: "chat e self query1 s = (answer1, self1, s1)"
    by (cases "chat e self query1 s")
  obtain answer2 self2 s2 where c2: "chat e self1 query2 s1 = (answer2, self2, s2)"
    by (cases "chat e self1 query2 s1")
  have r1: "history self1 =
      history self @ user_message query1 # map as_message (turns (new_events s s1))"
    and m1: "model self1 = model self"
    using chat_run [of e self query1 s] c1 by auto
  have r2: "history self2 =
      history self1 @ user_message query2 # map as_message (turns (new_events s1 s2))"
    and p2: "passes_history (history self1 @ [user_message query2]) (new_events s1 s2)"
    using chat_run [of e self1 query2 s1] c2 by auto
  have f2: "hd (new_events s1 s2) =
      ModelCall (model self) (history self1 @ [user_message query2]) tools
        (fst (client_chat e (model self) (history self1 @ [user_message query2]) tools (world s1)))"
    using chat_first_call [of s1 e self1 query2] c2 m1 by auto
  have fail: "history (fst (snd (chat e self query1 s))) = history self @ [user_message query1]"
    if down: "fst (client_chat e (model self) (history self @ [user_message query1]) tools (world s))
         = Inl ex"
  proof -
    let ?self0 = "self\<lparr>history := history self @ [user_message query1]\<rparr>"
    obtain w' where "client_chat e (model ?self0) (history ?self0) tools (world s) = (Inl ex, w')"
      using down
      by (cases "client_chat e (model self) (history self @ [user_message query1]) tools (world s)")
         auto
    then have "chat_loop e (Suc 4) ?self0 s =
        (Inr (''Error communicating with Ollama: '' @ str_exc ex), ?self0,
         \<lparr>world = w', calls = calls s @ [ModelCall (model ?self0) (history ?self0) tools (Inl ex)]\<rparr>)"
      by (rule chat_loop_raise)
    then show ?thesis by (simp add: chat_def del: chat_loop.simps)
  qed
  show ?thesis
    using r1 r2 p2 f2 fail by (simp add: c1 c2 init_def)
qed

theorem history_only_grows_witness:
  "fst (client_chat (demo_env model_down) (model agent0)
         (history agent0 @ [user_message ''show me sales'']) tools (world io0)) =
     Inl (Exception ''Failed to connect to Ollama'')
   \<and> history (fst (snd (chat (demo_env model_down) agent0 ''show me sales'' io0))) =
       history agent0 @ [user_message ''show me sales'']"
proof -
  have h: "fst (client_chat (demo_env model_down) (model agent0)
         (history agent0 @ [user_message ''show me sales'']) tools (world io0)) =
     Inl (Exception ''Failed to connect to Ollama'')"
    by (simp add: demo_env_def model_down_def)
  show ?thesis
    using h history_only_grows [of "()" "[]" "demo_env model_down" agent0 "''show me sales''" io0
        "[]" "Exception ''Failed to connect to Ollama''"]
    by simp
qed

end
